theory Spec2Isabelle
  imports Main "HOL-Library.Sublist" "HOL-Library.Product_Lexorder"
begin

text \<open>
  The ticket workflow of the feedback system: the store of \<^verbatim>\<open>db_manager.py\<close>, and the
  status derivation, the permission test and the transition operations of the dispatch
  page \<^verbatim>\<open>pages/(work order dispatch).py\<close>, as functions on an explicit store.
\<close>

section \<open>Strings\<close>

text \<open>
  A Python \<^verbatim>\<open>str\<close> is a sequence of Unicode code points, and so is a TEXT value of the
  store. The status names, department names and action markers of the program are Chinese
  words, so a string is modelled as the list of its code points (a \<^typ>\<open>nat list\<close>), and each
  literal of the source is a constant below, with its code points in hexadecimal and an
  English gloss beside it.
\<close>

type_synonym ustr = "nat list"

text \<open>\<^verbatim>\<open>'diao du zhong xin'\<close> U+8C03 5EA6 4E2D 5FC3: the dispatch center.\<close>
definition DISPATCH_CENTER :: ustr where
  "DISPATCH_CENTER = [35843, 24230, 20013, 24515]"

text \<open>\<^verbatim>\<open>WORK_ORDER_STATUS['PENDING']\<close>, U+5F85 5904 7406: pending.\<close>
definition STATUS_PENDING :: ustr where
  "STATUS_PENDING = [24453, 22788, 29702]"

text \<open>\<^verbatim>\<open>WORK_ORDER_STATUS['ASSIGNED']\<close>, U+5DF2 6D3E 53D1: assigned (dispatched).\<close>
definition STATUS_ASSIGNED :: ustr where
  "STATUS_ASSIGNED = [24050, 27966, 21457]"

text \<open>\<^verbatim>\<open>WORK_ORDER_STATUS['PROCESSING']\<close>, U+5904 7406 4E2D: processing.\<close>
definition STATUS_PROCESSING :: ustr where
  "STATUS_PROCESSING = [22788, 29702, 20013]"

text \<open>\<^verbatim>\<open>WORK_ORDER_STATUS['REPLIED']\<close>, U+5DF2 5904 7406 56DE 590D: processed and replied.\<close>
definition STATUS_REPLIED :: ustr where
  "STATUS_REPLIED = [24050, 22788, 29702, 22238, 22797]"

text \<open>\<^verbatim>\<open>WORK_ORDER_STATUS['RESOLVED']\<close>, U+5DF2 529E 7ED3: resolved (closed).\<close>
definition STATUS_RESOLVED :: ustr where
  "STATUS_RESOLVED = [24050, 21150, 32467]"

text \<open>The replied status followed by U+FF08 534F 540C 5B8C 6210 FF09: (collaboration complete).\<close>
definition STATUS_REPLIED_COLLAB_COMPLETE :: ustr where
  "STATUS_REPLIED_COLLAB_COMPLETE =
     [24050, 22788, 29702, 22238, 22797, 65288, 21327, 21516, 23436, 25104, 65289]"

text \<open>The replied status followed by U+FF08 534F 540C 5904 7406 4E2D FF09: (collaboration in
  progress).\<close>
definition STATUS_REPLIED_COLLAB_PENDING :: ustr where
  "STATUS_REPLIED_COLLAB_PENDING =
     [24050, 22788, 29702, 22238, 22797, 65288, 21327, 21516, 22788, 29702, 20013, 65289]"

text \<open>The processing status followed by U+FF08 534F 540C 5904 7406 FF09: (collaborative).\<close>
definition STATUS_PROCESSING_COLLAB :: ustr where
  "STATUS_PROCESSING_COLLAB =
     [22788, 29702, 20013, 65288, 21327, 21516, 22788, 29702, 65289]"

text \<open>The assigned status followed by U+FF08 534F 540C 6D3E 5355 FF09: (collaborative dispatch).\<close>
definition STATUS_ASSIGNED_COLLAB :: ustr where
  "STATUS_ASSIGNED_COLLAB =
     [24050, 27966, 21457, 65288, 21327, 21516, 27966, 21333, 65289]"

text \<open>U+672A 5B9A: undetermined (no response department chosen).\<close>
definition UNDETERMINED :: ustr where
  "UNDETERMINED = [26410, 23450]"

text \<open>U+9A73 56DE: the rejection marker.\<close>
definition MARK_REJECT :: ustr where
  "MARK_REJECT = [39539, 22238]"

text \<open>U+5DE5 5355 88AB 9A73 56DE: "the work order was rejected".\<close>
definition MARK_ORDER_REJECTED :: ustr where
  "MARK_ORDER_REJECTED = [24037, 21333, 34987, 39539, 22238]"

text \<open>U+5904 7406 56DE 590D: the processed-reply marker.\<close>
definition MARK_REPLY :: ustr where
  "MARK_REPLY = [22788, 29702, 22238, 22797]"

text \<open>U+534F 540C: the collaboration marker.\<close>
definition MARK_COLLABORATE :: ustr where
  "MARK_COLLABORATE = [21327, 21516]"

text \<open>U+5F85 5206 914D: "to be assigned".\<close>
definition TO_BE_ASSIGNED :: ustr where
  "TO_BE_ASSIGNED = [24453, 20998, 37197]"

text \<open>U+672A 77E5 90E8 95E8: "unknown department".\<close>
definition UNKNOWN_DEPARTMENT :: ustr where
  "UNKNOWN_DEPARTMENT = [26410, 30693, 37096, 38376]"

text \<open>The text of an f-string around its holes. \<^verbatim>\<open>REJECT_PREFIX\<close> is "work order rejected,
  rejection reason:" (U+5DE5 5355 88AB 9A73 56DE FF0C 9A73 56DE 539F 56E0 FF1A) and
  \<^verbatim>\<open>REJECT_SUFFIX\<close> is ", flows to the dispatch center" (U+FF0C 6D41 8F6C 81F3 8C03 5EA6 4E2D
  5FC3).\<close>
definition REJECT_PREFIX :: ustr where
  "REJECT_PREFIX = [24037, 21333, 34987, 39539, 22238, 65292, 39539, 22238, 21407, 22240, 65306]"

definition REJECT_SUFFIX :: ustr where
  "REJECT_SUFFIX = [65292, 27969, 36716, 33267, 35843, 24230, 20013, 24515]"

text \<open>"processed reply:" (U+5904 7406 56DE 590D FF1A), the comment of the status log.\<close>
definition REPLY_LOG_PREFIX :: ustr where
  "REPLY_LOG_PREFIX = [22788, 29702, 22238, 22797, 65306]"

text \<open>"processed reply, flows to" (U+5904 7406 56DE 590D FF0C 6D41 8F6C 81F3).\<close>
definition REPLY_FLOW_PREFIX :: ustr where
  "REPLY_FLOW_PREFIX = [22788, 29702, 22238, 22797, 65292, 27969, 36716, 33267]"

text \<open>The full-width colon U+FF1A.\<close>
definition FW_COLON :: ustr where
  "FW_COLON = [65306]"

text \<open>"processed reply (collaboration in progress):" (U+5904 7406 56DE 590D FF08 534F 540C
  5904 7406 4E2D FF09 FF1A).\<close>
definition REPLY_COLLAB_PREFIX :: ustr where
  "REPLY_COLLAB_PREFIX =
     [22788, 29702, 22238, 22797, 65288, 21327, 21516, 22788, 29702, 20013, 65289, 65306]"

text \<open>What an f-string prints for a value that may be \<^verbatim>\<open>None\<close>.\<close>
fun fstr :: "ustr option \<Rightarrow> ustr" where
  "fstr None = [78, 111, 110, 101]"
| "fstr (Some s) = s"

text \<open>
  \<^verbatim>\<open>needle in haystack\<close> on Python strings, and \<^verbatim>\<open>haystack LIKE '%needle%'\<close> in the
  store for a needle without ASCII letters, \<^verbatim>\<open>%\<close> or \<^verbatim>\<open>_\<close> (all markers here): the
  needle occurs as a contiguous run of the haystack.
\<close>
fun str_in :: "ustr \<Rightarrow> ustr \<Rightarrow> bool" where
  "str_in needle [] = (needle = [])"
| "str_in needle (c # cs) = (prefix needle (c # cs) \<or> str_in needle cs)"

text \<open>The code points for which \<^verbatim>\<open>str.isspace\<close> holds; \<^verbatim>\<open>str.strip()\<close> removes them from
  both ends.\<close>
definition py_isspace :: "nat \<Rightarrow> bool" where
  "py_isspace c = List.member
     [9, 10, 11, 12, 13, 28, 29, 30, 31, 32, 133, 160, 5760, 8192, 8193, 8194, 8195, 8196,
      8197, 8198, 8199, 8200, 8201, 8202, 8232, 8233, 8239, 8287, 12288] c"

definition strip :: "ustr \<Rightarrow> ustr" where
  "strip s = rev (dropWhile py_isspace (rev (dropWhile py_isspace s)))"

text \<open>Truth value of an optional string: \<^verbatim>\<open>None\<close> and \<^verbatim>\<open>''\<close> are false.\<close>
fun truthy :: "ustr option \<Rightarrow> bool" where
  "truthy None = False"
| "truthy (Some s) = (s \<noteq> [])"

section \<open>The ticket store\<close>

text \<open>
  The tables of \<^verbatim>\<open>db_manager.py\<close> (\<^verbatim>\<open>init_db\<close> and \<^verbatim>\<open>_migrate_to_multi_department\<close>),
  with the columns that the routing and status rules read or write. Free-text columns that
  no rule reads (category, description, contact, priority, counters, \<^verbatim>\<open>updated_at\<close>,
  \<^verbatim>\<open>processing_status\<close>) are left out. A nullable TEXT column is an \<^typ>\<open>ustr option\<close>.
  A timestamp is a number of seconds; the formatted strings of the source compare in the
  same order.
\<close>

record problem =
  p_title :: ustr
  p_author :: ustr
  p_department :: ustr
  p_status :: ustr
  p_processing_unit :: "ustr option"
  p_processing_person :: "ustr option"
  p_response_department :: "ustr option"
  p_initial_processing_unit :: "ustr option"
  p_initial_status :: "ustr option"
  p_is_processing :: bool
  p_is_resolved :: bool

record problem_department =
  pd_problem_id :: nat
  pd_department :: ustr
  pd_is_primary :: bool
  pd_assigned_at :: nat
  pd_assigned_by :: ustr

record processing_record =
  pr_problem_id :: nat
  pr_processor :: ustr
  pr_measure :: ustr
  pr_department :: "ustr option"
  pr_assigned_to :: "ustr option"
  pr_created_at :: nat

record status_log =
  sl_problem_id :: nat
  sl_old_status :: "ustr option"
  sl_new_status :: ustr
  sl_operator :: ustr
  sl_comment :: ustr

datatype role = User | Processor | Manager | Admin

record user =
  u_real_name :: ustr
  u_department :: "ustr option"
  u_role :: role

text \<open>
  The store. \<^verbatim>\<open>problems\<close> is keyed by its INTEGER PRIMARY KEY; \<^verbatim>\<open>problems_seq\<close> is the
  AUTOINCREMENT counter, the largest id ever given (no ticket of the table has a larger
  one). The other tables are lists in rowid order, the order of insertion.
\<close>
record database =
  problems :: "nat \<rightharpoonup> problem"
  problems_seq :: nat
  problem_departments :: "problem_department list"
  processing_records :: "processing_record list"
  status_logs :: "status_log list"
  users :: "user list"

text \<open>The session's \<^verbatim>\<open>user_info\<close> dictionary.\<close>
record user_info =
  ui_real_name :: ustr
  ui_role :: role
  ui_department :: "ustr option"

text \<open>Python writes local (Asia/Shanghai) time, eight hours ahead of the store's
  \<^verbatim>\<open>CURRENT_TIMESTAMP\<close>, which is UTC.\<close>
definition beijing_time :: "nat \<Rightarrow> nat" where
  "beijing_time now = now + 28800"

section \<open>Queries\<close>

text \<open>
  The read-only helpers are modelled for a store that answers: their \<^verbatim>\<open>except\<close> branches
  (an empty or negative answer when the connection raises) are not reached. An
  \<^verbatim>\<open>ORDER BY\<close> is a stable sort of the rows in rowid order: rows with equal keys come back
  in the order of insertion.
\<close>

definition get_problem_by_id :: "database \<Rightarrow> nat \<Rightarrow> problem option" where
  "get_problem_by_id db problem_id = problems db problem_id"

text \<open>\<^verbatim>\<open>ORDER BY is_primary DESC, assigned_at ASC\<close>.\<close>
definition department_order :: "problem_department \<Rightarrow> nat \<times> nat" where
  "department_order a = (if pd_is_primary a then 0 else 1, pd_assigned_at a)"

definition get_problem_departments :: "database \<Rightarrow> nat \<Rightarrow> problem_department list" where
  "get_problem_departments db problem_id =
     sort_key department_order
       (filter (\<lambda>a. pd_problem_id a = problem_id) (problem_departments db))"

definition get_processing_records :: "database \<Rightarrow> nat \<Rightarrow> processing_record list" where
  "get_processing_records db problem_id =
     sort_key pr_created_at
       (filter (\<lambda>r. pr_problem_id r = problem_id) (processing_records db))"

definition is_department_assigned_to_problem :: "database \<Rightarrow> nat \<Rightarrow> ustr option \<Rightarrow> bool" where
  "is_department_assigned_to_problem db problem_id department =
     (case department of
        None \<Rightarrow> False
      | Some d \<Rightarrow>
          0 < length (filter (\<lambda>a. pd_problem_id a = problem_id \<and> pd_department a = d)
                        (problem_departments db)))"

definition is_department_collaborating_on_problem :: "database \<Rightarrow> nat \<Rightarrow> ustr option \<Rightarrow> bool" where
  "is_department_collaborating_on_problem db problem_id department =
     (case department of
        None \<Rightarrow> False
      | Some d \<Rightarrow>
          0 < length (filter (\<lambda>r. pr_problem_id r = problem_id \<and> pr_department r = Some d
                                   \<and> str_in MARK_COLLABORATE (pr_measure r))
                        (processing_records db)))"

text \<open>\<^verbatim>\<open>is_collaboration_work_order\<close>: more than one associated department other than the
  dispatch center.\<close>
definition is_collaboration_work_order :: "database \<Rightarrow> nat \<Rightarrow> bool" where
  "is_collaboration_work_order db problem_id =
     (1 < length (filter (\<lambda>a. pd_problem_id a = problem_id \<and> pd_department a \<noteq> DISPATCH_CENTER)
                    (problem_departments db)))"

text \<open>The inner query of \<^verbatim>\<open>check_all_collaborative_departments_processed\<close>: the number of
  processing records of the department whose measure is \<^verbatim>\<open>LIKE\<close> the processed-reply marker.\<close>
definition count_reply_records :: "database \<Rightarrow> nat \<Rightarrow> ustr \<Rightarrow> nat" where
  "count_reply_records db problem_id dept =
     length (filter (\<lambda>r. pr_problem_id r = problem_id \<and> pr_department r = Some dept
                          \<and> str_in MARK_REPLY (pr_measure r))
               (processing_records db))"

text \<open>Its \<^verbatim>\<open>for dept in departments\<close> loop, which returns False at the first department
  without such a record.\<close>
fun each_department_replied :: "database \<Rightarrow> nat \<Rightarrow> ustr list \<Rightarrow> bool" where
  "each_department_replied db problem_id [] = True"
| "each_department_replied db problem_id (dept # depts) =
     (if count_reply_records db problem_id dept = 0 then False
      else each_department_replied db problem_id depts)"

text \<open>The departments it selects: those of the ticket other than the dispatch center.\<close>
definition collaborative_departments :: "database \<Rightarrow> nat \<Rightarrow> ustr list" where
  "collaborative_departments db problem_id =
     map pd_department
       (sort_key department_order
          (filter (\<lambda>a. pd_problem_id a = problem_id \<and> pd_department a \<noteq> DISPATCH_CENTER)
             (problem_departments db)))"

text \<open>\<^verbatim>\<open>check_all_collaborative_departments_processed\<close>, the same text in \<^verbatim>\<open>db_manager.py\<close>
  and (twice) in the dispatch page.\<close>
definition check_all_collaborative_departments_processed :: "database \<Rightarrow> nat \<Rightarrow> bool" where
  "check_all_collaborative_departments_processed db problem_id =
     (let departments = collaborative_departments db problem_id in
      if length departments \<le> 1 then True
      else each_department_replied db problem_id departments)"

text \<open>The loop of \<^verbatim>\<open>is_rejected_work_order\<close> over the records, newest first.\<close>
fun any_rejection_record :: "processing_record list \<Rightarrow> bool" where
  "any_rejection_record [] = False"
| "any_rejection_record (r # rs) =
     (if str_in MARK_ORDER_REJECTED (pr_measure r) \<or> str_in MARK_REJECT (pr_measure r) then True
      else any_rejection_record rs)"

definition is_rejected_work_order :: "database \<Rightarrow> nat \<Rightarrow> bool" where
  "is_rejected_work_order db problem_id =
     (let processing_records = get_processing_records db problem_id in
      if processing_records \<noteq> [] then any_rejection_record (rev processing_records)
      else False)"

section \<open>Status derivation and the permission gate\<close>

text \<open>
  A row of \<^verbatim>\<open>get_filtered_work_orders\<close>: the columns of the ticket and the number of its
  processing records (\<^verbatim>\<open>COUNT(pr.id)\<close> over the left join).
\<close>
record work_order =
  wo_id :: nat
  wo_status :: ustr
  wo_processing_unit :: "ustr option"
  wo_is_processing :: bool
  wo_is_resolved :: bool
  wo_processing_records_count :: nat

definition select_work_order :: "database \<Rightarrow> nat \<Rightarrow> work_order option" where
  "select_work_order db problem_id =
     (case problems db problem_id of
        None \<Rightarrow> None
      | Some p \<Rightarrow> Some \<lparr>wo_id = problem_id, wo_status = p_status p,
                        wo_processing_unit = p_processing_unit p,
                        wo_is_processing = p_is_processing p,
                        wo_is_resolved = p_is_resolved p,
                        wo_processing_records_count =
                          length (filter (\<lambda>r. pr_problem_id r = problem_id)
                                    (processing_records db))\<rparr>)"

text \<open>The variable \<^verbatim>\<open>is_rejected_to_dispatch\<close> of \<^verbatim>\<open>render_work_order_operation\<close>.\<close>
definition is_rejected_to_dispatch :: "database \<Rightarrow> work_order \<Rightarrow> bool" where
  "is_rejected_to_dispatch db problem =
     (if wo_status problem = STATUS_PENDING
         \<and> wo_processing_unit problem = Some DISPATCH_CENTER
         \<and> 0 < wo_processing_records_count problem
      then is_rejected_work_order db (wo_id problem)
      else False)"

text \<open>The test \<^verbatim>\<open>processing_unit and processing_unit.strip()\<close>.\<close>
definition unit_given :: "ustr option \<Rightarrow> bool" where
  "unit_given processing_unit =
     (truthy processing_unit \<and> truthy (map_option strip processing_unit))"

text \<open>The variable \<^verbatim>\<open>display_status\<close> of \<^verbatim>\<open>render_work_order_operation\<close>.\<close>
definition display_status :: "database \<Rightarrow> work_order \<Rightarrow> ustr" where
  "display_status db problem =
     (let status = wo_status problem;
          processing_unit = wo_processing_unit problem;
          is_processing = wo_is_processing problem;
          is_resolved = wo_is_resolved problem;
          processing_records_count = wo_processing_records_count problem;
          is_collaborative = is_collaboration_work_order db (wo_id problem)
      in
      if is_resolved then STATUS_RESOLVED
      else if status = STATUS_REPLIED then
        (if is_collaborative then
           (if check_all_collaborative_departments_processed db (wo_id problem)
            then STATUS_REPLIED_COLLAB_COMPLETE
            else STATUS_REPLIED_COLLAB_PENDING)
         else STATUS_REPLIED)
      else if is_rejected_to_dispatch db problem then STATUS_PENDING
      else if is_processing \<or> (0 < processing_records_count \<and> status \<noteq> STATUS_PENDING) then
        (if is_collaborative then STATUS_PROCESSING_COLLAB else STATUS_PROCESSING)
      else if status = STATUS_ASSIGNED \<or> (unit_given processing_unit \<and> status \<noteq> STATUS_PENDING) then
        (if is_collaborative then STATUS_ASSIGNED_COLLAB else STATUS_ASSIGNED)
      else STATUS_PENDING)"

text \<open>\<^verbatim>\<open>_calculate_status_for_statistics\<close> of \<^verbatim>\<open>db_manager.py\<close>, which counts the tickets
  per status: the same cascade without the collaborative variants and without the test
  for a rejected ticket.\<close>
definition calculate_status_for_statistics :: "work_order \<Rightarrow> ustr" where
  "calculate_status_for_statistics problem =
     (let status = wo_status problem;
          processing_unit = wo_processing_unit problem;
          is_processing = wo_is_processing problem;
          is_resolved = wo_is_resolved problem;
          processing_records_count = wo_processing_records_count problem
      in
      if is_resolved then STATUS_RESOLVED
      else if status = STATUS_REPLIED then STATUS_REPLIED
      else if is_processing \<or> (0 < processing_records_count \<and> status \<noteq> STATUS_PENDING)
        then STATUS_PROCESSING
      else if status = STATUS_ASSIGNED \<or> (unit_given processing_unit \<and> status \<noteq> STATUS_PENDING)
        then STATUS_ASSIGNED
      else STATUS_PENDING)"

text \<open>The variable \<^verbatim>\<open>can_operate\<close> of \<^verbatim>\<open>render_work_order_operation\<close>.\<close>
definition can_operate :: "database \<Rightarrow> work_order \<Rightarrow> user_info \<Rightarrow> bool" where
  "can_operate db problem user_info =
     (let user_role = ui_role user_info;
          user_department = ui_department user_info;
          processing_unit = wo_processing_unit problem;
          is_collaborative = is_collaboration_work_order db (wo_id problem);
          shown = display_status db problem
      in
      if user_role = Admin then
        (if user_department = Some DISPATCH_CENTER then
           (shown = STATUS_PENDING
            \<or> processing_unit = Some DISPATCH_CENTER
            \<or> (shown = STATUS_REPLIED_COLLAB_COMPLETE \<and> is_collaborative))
         else
           (if shown = STATUS_REPLIED \<and> processing_unit \<noteq> user_department then False
            else processing_unit = user_department))
      else
        (if user_department = Some DISPATCH_CENTER then
           (shown = STATUS_PENDING
            \<or> processing_unit = Some DISPATCH_CENTER
            \<or> (shown = STATUS_REPLIED_COLLAB_COMPLETE \<and> is_collaborative))
         else
           (if shown = STATUS_REPLIED \<and> processing_unit \<noteq> user_department then False
            else (processing_unit = user_department
                  \<or> is_department_assigned_to_problem db (wo_id problem) user_department
                  \<or> is_department_collaborating_on_problem db (wo_id problem) user_department))))"

section \<open>Writes\<close>

text \<open>
  Every write helper of \<^verbatim>\<open>db_manager.py\<close> opens a connection of its own, runs its
  statements, commits, and returns True; when the connection raises, the statements are
  rolled back and the helper returns False. Whether the store raises is the environment's
  choice: the argument \<open>fails\<close>. \<open>now\<close> is the wall clock in seconds (UTC) when the helper
  runs.
\<close>

text \<open>\<^verbatim>\<open>UPDATE problems SET ... WHERE id = ?\<close>: no row, no change.\<close>
definition update_problem :: "database \<Rightarrow> nat \<Rightarrow> (problem \<Rightarrow> problem) \<Rightarrow> database" where
  "update_problem db problem_id f =
     (case problems db problem_id of
        None \<Rightarrow> db
      | Some p \<Rightarrow> db\<lparr>problems := (problems db)(problem_id \<mapsto> f p)\<rparr>)"

text \<open>The scalar subquery \<^verbatim>\<open>(SELECT status FROM problems WHERE id = ?)\<close>: NULL when the
  ticket does not exist.\<close>
definition select_status :: "database \<Rightarrow> nat \<Rightarrow> ustr option" where
  "select_status db problem_id = map_option p_status (problems db problem_id)"

text \<open>\<^verbatim>\<open>update_problem_status\<close>: the UPDATE runs first, the INSERT into the log second, in
  one transaction; the subquery of the INSERT reads the row as the UPDATE left it.\<close>
definition update_problem_status ::
  "bool \<Rightarrow> database \<Rightarrow> nat \<Rightarrow> ustr \<Rightarrow> ustr \<Rightarrow> ustr \<Rightarrow> bool \<times> database" where
  "update_problem_status fails db problem_id new_status operator comment =
     (if fails then (False, db)
      else
        (let db1 = update_problem db problem_id (\<lambda>p. p\<lparr>p_status := new_status\<rparr>);
             db2 = db1\<lparr>status_logs := status_logs db1 @
                       [\<lparr>sl_problem_id = problem_id,
                         sl_old_status = select_status db1 problem_id,
                         sl_new_status = new_status,
                         sl_operator = operator,
                         sl_comment = comment\<rparr>]\<rparr>
         in (True, db2)))"

definition add_processing_record ::
  "bool \<Rightarrow> nat \<Rightarrow> database \<Rightarrow> nat \<Rightarrow> ustr \<Rightarrow> ustr \<Rightarrow> ustr option \<Rightarrow> ustr option
     \<Rightarrow> bool \<times> database" where
  "add_processing_record fails now db problem_id processor measure_text department assigned_to =
     (if fails then (False, db)
      else (True, db\<lparr>processing_records := processing_records db @
                       [\<lparr>pr_problem_id = problem_id,
                         pr_processor = processor,
                         pr_measure = measure_text,
                         pr_department = department,
                         pr_assigned_to = assigned_to,
                         pr_created_at = beijing_time now\<rparr>]\<rparr>))"

text \<open>The loop \<^verbatim>\<open>for i, dept in enumerate(departments)\<close> of
  \<^verbatim>\<open>assign_to_multiple_departments\<close>; \<^verbatim>\<open>assigned_at\<close> takes the column's default, the
  store's \<^verbatim>\<open>CURRENT_TIMESTAMP\<close>.\<close>
fun insert_departments ::
  "nat \<Rightarrow> nat \<Rightarrow> ustr \<Rightarrow> nat \<Rightarrow> ustr list \<Rightarrow> problem_department list
     \<Rightarrow> problem_department list" where
  "insert_departments now problem_id operator i [] rows = rows"
| "insert_departments now problem_id operator i (dept # depts) rows =
     insert_departments now problem_id operator (Suc i) depts
       (rows @ [\<lparr>pd_problem_id = problem_id,
                 pd_department = dept,
                 pd_is_primary = (i = 0),
                 pd_assigned_at = now,
                 pd_assigned_by = operator\<rparr>])"

text \<open>\<^verbatim>\<open>DELETE FROM problem_departments WHERE problem_id = ?\<close>.\<close>
definition delete_departments :: "nat \<Rightarrow> problem_department list \<Rightarrow> problem_department list" where
  "delete_departments problem_id rows = filter (\<lambda>a. pd_problem_id a \<noteq> problem_id) rows"

definition assign_to_multiple_departments ::
  "bool \<Rightarrow> nat \<Rightarrow> database \<Rightarrow> nat \<Rightarrow> ustr list \<Rightarrow> ustr \<Rightarrow> bool \<times> database" where
  "assign_to_multiple_departments fails now db problem_id departments operator =
     (if fails then (False, db)
      else (True, db\<lparr>problem_departments :=
                       insert_departments now problem_id operator 0 departments
                         (delete_departments problem_id (problem_departments db))\<rparr>))"

text \<open>The guard of \<^verbatim>\<open>save_problem\<close>, written twice there: \<^verbatim>\<open>response_department and
  response_department not in [undetermined, dispatch center]\<close>.\<close>
definition names_department :: "ustr \<Rightarrow> bool" where
  "names_department response_department =
     (response_department \<noteq> [] \<and> \<not> List.member [UNDETERMINED, DISPATCH_CENTER] response_department)"

text \<open>
  \<^verbatim>\<open>save_problem\<close>, without the uploaded files (\<^verbatim>\<open>uploaded_files=None\<close>). The result is
  \<open>Some problem_id\<close> for \<^verbatim>\<open>(True, problem_id)\<close> and \<open>None\<close> for \<^verbatim>\<open>(False, str(e))\<close>.
  The INSERT leaves \<^verbatim>\<open>status\<close> to the column's default, the pending status, and the new
  id is the successor of the AUTOINCREMENT counter.
\<close>
definition save_problem ::
  "bool \<Rightarrow> nat \<Rightarrow> database \<Rightarrow> ustr \<Rightarrow> ustr \<Rightarrow> ustr \<Rightarrow> ustr \<Rightarrow> nat option \<times> database" where
  "save_problem fails now db title author department response_department =
     (if fails then (None, db)
      else
        (let (initial_processing_unit, initial_status) =
               (if names_department response_department
                then (response_department, STATUS_ASSIGNED)
                else (DISPATCH_CENTER, STATUS_PENDING));
             problem_id = Suc (problems_seq db);
             db1 = db\<lparr>problems := (problems db)(problem_id \<mapsto>
                         \<lparr>p_title = title,
                           p_author = author,
                           p_department = department,
                           p_status = STATUS_PENDING,
                           p_processing_unit = Some initial_processing_unit,
                           p_processing_person = Some [],
                           p_response_department = Some response_department,
                           p_initial_processing_unit = Some initial_processing_unit,
                           p_initial_status = Some initial_status,
                           p_is_processing = False,
                           p_is_resolved = False\<rparr>),
                      problems_seq := problem_id\<rparr>;
             db2 =
               (if names_department response_department then
                  (let db' = update_problem db1 problem_id
                               (\<lambda>p. p\<lparr>p_processing_unit := Some response_department,
                                       p_status := STATUS_ASSIGNED\<rparr>)
                   in db'\<lparr>problem_departments := problem_departments db' @
                            [\<lparr>pd_problem_id = problem_id,
                              pd_department = response_department,
                              pd_is_primary = True,
                              pd_assigned_at = now,
                              pd_assigned_by = author\<rparr>]\<rparr>)
                else
                  db1\<lparr>problem_departments := problem_departments db1 @
                         [\<lparr>pd_problem_id = problem_id,
                           pd_department = DISPATCH_CENTER,
                           pd_is_primary = True,
                           pd_assigned_at = now,
                           pd_assigned_by = author\<rparr>]\<rparr>)
         in (Some problem_id, db2)))"

section \<open>Transition operations\<close>

text \<open>
  An operation of the dispatch page calls several helpers, each with a transaction of its
  own, and opens further connections itself. \<open>raises k\<close> says whether the store raises in
  the \<open>k\<close>-th transaction of the operation, counted in the order of the program text. The
  result is \<open>Some True\<close>, \<open>Some False\<close> (the \<^verbatim>\<open>except\<close> branch) or \<open>None\<close> (the function
  ends without a \<^verbatim>\<open>return\<close>). \<open>session\<close> is \<^verbatim>\<open>st.session_state.user_info\<close>.
\<close>

text \<open>The department of the first user with that real name, when it is not empty.\<close>
definition lookup_user_department :: "database \<Rightarrow> ustr \<Rightarrow> ustr" where
  "lookup_user_department db operator =
     (case filter (\<lambda>u. u_real_name u = operator) (users db) of
        [] \<Rightarrow> UNKNOWN_DEPARTMENT
      | u # _ \<Rightarrow>
          (case u_department u of
             None \<Rightarrow> UNKNOWN_DEPARTMENT
           | Some d \<Rightarrow> if d \<noteq> [] then d else UNKNOWN_DEPARTMENT))"

text \<open>The association table after \<^verbatim>\<open>DELETE\<close> of the ticket's rows and \<^verbatim>\<open>INSERT\<close> of one
  primary row.\<close>
definition replace_departments ::
  "database \<Rightarrow> nat \<Rightarrow> ustr \<Rightarrow> nat \<Rightarrow> ustr \<Rightarrow> database" where
  "replace_departments db problem_id dept assigned_at operator =
     db\<lparr>problem_departments :=
          delete_departments problem_id (problem_departments db) @
          [\<lparr>pd_problem_id = problem_id,
            pd_department = dept,
            pd_is_primary = True,
            pd_assigned_at = assigned_at,
            pd_assigned_by = operator\<rparr>]\<rparr>"

text \<open>\<^verbatim>\<open>reject_work_order\<close>. Transactions: 0 the status update and its log, 1 the update of
  the ticket's unit, person and flag, 2 the replacement of the associations, 3 the lookup
  of the operator's department, 4 the processing record.\<close>
definition reject_work_order ::
  "(nat \<Rightarrow> bool) \<Rightarrow> nat \<Rightarrow> user_info \<Rightarrow> database \<Rightarrow> nat \<Rightarrow> ustr \<Rightarrow> ustr
     \<Rightarrow> bool option \<times> database" where
  "reject_work_order raises now session db problem_id operator reject_reason =
     (let (success, db1) =
            update_problem_status (raises 0) db problem_id STATUS_PENDING operator
              (REJECT_PREFIX @ reject_reason)
      in
      if \<not> success then (None, db1)
      else if raises 1 then (Some False, db1)
      else
        (let current_time = beijing_time now;
             db2 = update_problem db1 problem_id
                     (\<lambda>p. p\<lparr>p_processing_unit := Some DISPATCH_CENTER,
                             p_processing_person := None,
                             p_is_processing := False\<rparr>)
         in
         if raises 2 then (Some False, db2)
         else
           (let db3 = replace_departments db2 problem_id DISPATCH_CENTER current_time operator;
                user_department =
                  (if raises 3 then ui_department session
                   else Some (lookup_user_department db3 operator));
                (recorded, db4) =
                  add_processing_record (raises 4) now db3 problem_id operator
                    (REJECT_PREFIX @ reject_reason @ REJECT_SUFFIX)
                    user_department (Some TO_BE_ASSIGNED)
            in (Some True, db4))))"

text \<open>
  \<^verbatim>\<open>process_reply_work_order\<close>. Transactions: 0 the status update and its log, 1 the
  update of the unit and the replacement of the associations, 2 the processing record.
  The completeness check runs on the store as the status update left it, before the
  record of this reply is written. In the branch that hands the ticket to the dispatch
  center, the query for the collaborative replies runs after the associations are
  replaced, so it finds no department other than the dispatch center and its loop body
  never runs (lemma \<open>no_collaborative_rows_after_replace\<close>); an association without a
  department would violate NOT NULL and raise.
\<close>
definition process_reply_work_order ::
  "(nat \<Rightarrow> bool) \<Rightarrow> nat \<Rightarrow> user_info \<Rightarrow> database \<Rightarrow> nat \<Rightarrow> ustr \<Rightarrow> ustr
     \<Rightarrow> bool option \<times> database" where
  "process_reply_work_order raises now session db problem_id processor reply_content =
     (case get_problem_by_id db problem_id of
        None \<Rightarrow> (Some False, db)
      | Some problem \<Rightarrow>
          (let problem_departments = get_problem_departments db problem_id;
               is_collaborative = (1 < length problem_departments);
               (success, db1) =
                 update_problem_status (raises 0) db problem_id STATUS_REPLIED processor
                   (REPLY_LOG_PREFIX @ reply_content)
           in
           if \<not> success then (None, db1)
           else
             (let (target_department, target_person, clear_multiple_departments) =
                    (if is_collaborative then
                       (if check_all_collaborative_departments_processed db1 problem_id
                        then (Some DISPATCH_CENTER, Some TO_BE_ASSIGNED, True)
                        else (p_processing_unit problem, p_processing_person problem, False))
                     else (Some DISPATCH_CENTER, Some TO_BE_ASSIGNED, True));
                  current_time = beijing_time now;
                  written =
                    (if raises 1 then None
                     else if clear_multiple_departments then
                       (case target_department of
                          None \<Rightarrow> None
                        | Some dept \<Rightarrow>
                            Some (replace_departments
                                    (update_problem db1 problem_id
                                       (\<lambda>p. p\<lparr>p_processing_unit := target_department\<rparr>))
                                    problem_id dept current_time processor))
                     else Some db1)
              in
              (case written of
                 None \<Rightarrow> (Some False, db1)
               | Some db2 \<Rightarrow>
                   (let user_department = ui_department session;
                        measure_text =
                          (if clear_multiple_departments
                           then REPLY_FLOW_PREFIX @ fstr target_department @ FW_COLON @ reply_content
                           else REPLY_COLLAB_PREFIX @ reply_content);
                        (recorded, db3) =
                          add_processing_record (raises 2) now db2 problem_id processor
                            measure_text user_department target_person
                    in (Some True, db3))))))"

text \<open>\<^verbatim>\<open>update_problem_processor\<close>: the unit is written only for a department that is neither
  \<^verbatim>\<open>None\<close> nor empty.\<close>
definition update_problem_processor ::
  "bool \<Rightarrow> database \<Rightarrow> nat \<Rightarrow> ustr \<Rightarrow> ustr option \<Rightarrow> bool \<times> database" where
  "update_problem_processor fails db problem_id processor department =
     (if fails then (False, db)
      else if truthy department then
        (True, update_problem db problem_id
                 (\<lambda>p. p\<lparr>p_processing_person := Some processor, p_processing_unit := department\<rparr>))
      else
        (True, update_problem db problem_id (\<lambda>p. p\<lparr>p_processing_person := Some processor\<rparr>)))"

text \<open>\<^verbatim>\<open>sep.join(parts)\<close>.\<close>
fun join :: "ustr \<Rightarrow> ustr list \<Rightarrow> ustr" where
  "join sep [] = []"
| "join sep [x] = x"
| "join sep (x # y # ys) = x @ sep @ join sep (y # ys)"

text \<open>\<^verbatim>\<open>xs[0] if xs else None\<close>.\<close>
fun first_or_none :: "'a list \<Rightarrow> 'a option" where
  "first_or_none [] = None"
| "first_or_none (x # xs) = Some x"

text \<open>The texts of \<^verbatim>\<open>dispatch_from_center\<close>: "dispatch center re-dispatch, opinion:"
  (U+8C03 5EA6 4E2D 5FC3 8F6C 6D3E FF0C 8F6C 6D3E 610F 89C1 FF1A), "dispatch center
  re-dispatch, departments:" (U+8C03 5EA6 4E2D 5FC3 8F6C 6D3E FF0C 8F6C 6D3E 90E8 95E8 FF1A),
  ", handlers:" (U+FF0C 5904 7406 4EBA FF1A), ", opinion:" (U+FF0C 8F6C 6D3E 610F 89C1 FF1A)
  and the separator \<^verbatim>\<open>', '\<close>.\<close>
definition DISPATCH_LOG_PREFIX :: ustr where
  "DISPATCH_LOG_PREFIX =
     [35843, 24230, 20013, 24515, 36716, 27966, 65292, 36716, 27966, 24847, 35265, 65306]"

definition DISPATCH_PREFIX :: ustr where
  "DISPATCH_PREFIX =
     [35843, 24230, 20013, 24515, 36716, 27966, 65292, 36716, 27966, 37096, 38376, 65306]"

definition PERSONS_INFIX :: ustr where
  "PERSONS_INFIX = [65292, 22788, 29702, 20154, 65306]"

definition COMMENTS_INFIX :: ustr where
  "COMMENTS_INFIX = [65292, 36716, 27966, 24847, 35265, 65306]"

definition COMMA_SPACE :: ustr where
  "COMMA_SPACE = [44, 32]"

text \<open>\<^verbatim>\<open>dispatch_from_center\<close>. Transactions: 0 the status update and its log, 1 the
  replacement of the associations, 2 the update of the handler and unit, 3 the processing
  record. The helpers report a failure by their result, which only the first call reads.\<close>
definition dispatch_from_center ::
  "(nat \<Rightarrow> bool) \<Rightarrow> nat \<Rightarrow> database \<Rightarrow> nat \<Rightarrow> ustr list \<Rightarrow> ustr list \<Rightarrow> ustr \<Rightarrow> ustr
     \<Rightarrow> bool \<times> database" where
  "dispatch_from_center raises now db problem_id assigned_departments assigned_persons operator
       dispatch_comments =
     (let (success, db1) =
            update_problem_status (raises 0) db problem_id STATUS_ASSIGNED operator
              (DISPATCH_LOG_PREFIX @ dispatch_comments)
      in
      if success then
        (let db3 =
               (if assigned_departments \<noteq> [] then
                  (let db2 = snd (assign_to_multiple_departments (raises 1) now db1 problem_id
                                    assigned_departments operator)
                   in
                   if assigned_persons \<noteq> [] then
                     snd (update_problem_processor (raises 2) db2 problem_id
                            (hd assigned_persons) (Some (hd assigned_departments)))
                   else db2)
                else db1);
             (recorded, db4) =
               add_processing_record (raises 3) now db3 problem_id operator
                 (DISPATCH_PREFIX @ join COMMA_SPACE assigned_departments @ PERSONS_INFIX
                    @ join COMMA_SPACE assigned_persons @ COMMENTS_INFIX @ dispatch_comments)
                 (Some DISPATCH_CENTER) (first_or_none assigned_persons)
         in (True, db4))
      else (False, db1))"

text \<open>The texts of \<^verbatim>\<open>accept_work_order\<close>: "accepted, processing started, opinion:"
  (U+5DF2 63A5 5355 5F00 59CB 5904 7406 FF0C 5904 7406 610F 89C1 FF1A) in the log and the
  same without its first character in the processing record.\<close>
definition ACCEPT_LOG_PREFIX :: ustr where
  "ACCEPT_LOG_PREFIX =
     [24050, 25509, 21333, 24320, 22987, 22788, 29702, 65292, 22788, 29702, 24847, 35265, 65306]"

definition ACCEPT_PREFIX :: ustr where
  "ACCEPT_PREFIX =
     [25509, 21333, 24320, 22987, 22788, 29702, 65292, 22788, 29702, 24847, 35265, 65306]"

text \<open>\<^verbatim>\<open>accept_work_order\<close>. Transactions: 0 the status update and its log, 1 the update of
  flag, handler and unit, 2 the processing record.\<close>
definition accept_work_order ::
  "(nat \<Rightarrow> bool) \<Rightarrow> nat \<Rightarrow> user_info \<Rightarrow> database \<Rightarrow> nat \<Rightarrow> ustr \<Rightarrow> ustr
     \<Rightarrow> bool option \<times> database" where
  "accept_work_order raises now session db problem_id processor processing_comments =
     (let user_department = ui_department session;
          (success, db1) =
            update_problem_status (raises 0) db problem_id STATUS_PROCESSING processor
              (ACCEPT_LOG_PREFIX @ processing_comments)
      in
      if \<not> success then (None, db1)
      else if raises 1 then (Some False, db1)
      else
        (let db2 = update_problem db1 problem_id
                     (\<lambda>p. p\<lparr>p_is_processing := True,
                             p_processing_person := Some processor,
                             p_processing_unit := user_department\<rparr>);
             (recorded, db3) =
               add_processing_record (raises 2) now db2 problem_id processor
                 (ACCEPT_PREFIX @ processing_comments) user_department None
         in (Some True, db3)))"

section \<open>The specification's wording\<close>




text \<open>The association set of a ticket, its departments other than the dispatch center, and
  "the department has a processing record whose measure contains the processed-reply
  marker".\<close>
definition department_associations :: "database \<Rightarrow> nat \<Rightarrow> problem_department list" where
  "department_associations db problem_id =
     filter (\<lambda>a. pd_problem_id a = problem_id) (problem_departments db)"

definition non_dispatch_departments :: "database \<Rightarrow> nat \<Rightarrow> ustr list" where
  "non_dispatch_departments db problem_id =
     filter (\<lambda>d. d \<noteq> DISPATCH_CENTER) (map pd_department (department_associations db problem_id))"

definition has_reply_record :: "database \<Rightarrow> nat \<Rightarrow> ustr \<Rightarrow> bool" where
  "has_reply_record db problem_id dept =
     list_ex (\<lambda>r. pr_problem_id r = problem_id \<and> pr_department r = Some dept
                   \<and> str_in MARK_REPLY (pr_measure r))
       (processing_records db)"

text \<open>The tables a reader of the store sees.\<close>
definition visible ::
  "database \<Rightarrow> (nat \<rightharpoonup> problem) \<times> problem_department list \<times> processing_record list
     \<times> status_log list" where
  "visible db = (problems db, problem_departments db, processing_records db, status_logs db)"

section \<open>Example data\<close>

text \<open>Departments "Sales", "Support" and "HR", staff names, and free texts.\<close>
definition SALES :: ustr where
  "SALES = [83, 97, 108, 101, 115]"

definition SUPPORT :: ustr where
  "SUPPORT = [83, 117, 112, 112, 111, 114, 116]"

definition HR :: ustr where
  "HR = [72, 82]"

definition ANN :: ustr where
  "ANN = [65, 110, 110]"

definition BOB :: ustr where
  "BOB = [66, 111, 98]"

definition CAROL :: ustr where
  "CAROL = [67, 97, 114, 111, 108]"

definition DAVE :: ustr where
  "DAVE = [68, 97, 118, 101]"

definition some_text :: ustr where
  "some_text = [111, 107]"

definition no_failure :: "nat \<Rightarrow> bool" where
  "no_failure k = False"

definition bob_sales :: user_info where
  "bob_sales = \<lparr>ui_real_name = BOB, ui_role = Processor, ui_department = Some SALES\<rparr>"

definition carol_support :: user_info where
  "carol_support = \<lparr>ui_real_name = CAROL, ui_role = Processor, ui_department = Some SUPPORT\<rparr>"

definition dave_hr :: user_info where
  "dave_hr = \<lparr>ui_real_name = DAVE, ui_role = Processor, ui_department = Some HR\<rparr>"

text \<open>A store with four users and no ticket.\<close>
definition db_start :: database where
  "db_start =
     \<lparr>problems = Map.empty, problems_seq = 0, problem_departments = [],
      processing_records = [], status_logs = [],
      users = [\<lparr>u_real_name = ANN, u_department = Some DISPATCH_CENTER, u_role = Admin\<rparr>,
               \<lparr>u_real_name = BOB, u_department = Some SALES, u_role = Processor\<rparr>,
               \<lparr>u_real_name = CAROL, u_department = Some SUPPORT, u_role = Processor\<rparr>,
               \<lparr>u_real_name = DAVE, u_department = Some HR, u_role = Processor\<rparr>]\<rparr>"

text \<open>Ticket 1 as \<^verbatim>\<open>save_problem\<close> creates it for the response department HR.\<close>
definition ticket_for_hr :: problem where
  "ticket_for_hr =
     \<lparr>p_title = some_text, p_author = ANN, p_department = DISPATCH_CENTER,
      p_status = STATUS_ASSIGNED, p_processing_unit = Some HR, p_processing_person = Some [],
      p_response_department = Some HR, p_initial_processing_unit = Some HR,
      p_initial_status = Some STATUS_ASSIGNED, p_is_processing = False, p_is_resolved = False\<rparr>"

definition db_hr_assigned :: database where
  "db_hr_assigned =
     db_start\<lparr>problems := [1 \<mapsto> ticket_for_hr], problems_seq := 1,
       problem_departments :=
         [\<lparr>pd_problem_id = 1, pd_department = HR, pd_is_primary = True,
           pd_assigned_at = 100, pd_assigned_by = ANN\<rparr>]\<rparr>"

text \<open>HR rejects ticket 1 with the reason \<open>some_text\<close>.\<close>
definition db_hr_rejected :: database where
  "db_hr_rejected =
     db_hr_assigned\<lparr>problems :=
         [1 \<mapsto> ticket_for_hr\<lparr>p_status := STATUS_PENDING,
                 p_processing_unit := Some DISPATCH_CENTER, p_processing_person := None\<rparr>],
       problem_departments :=
         [\<lparr>pd_problem_id = 1, pd_department = DISPATCH_CENTER, pd_is_primary = True,
           pd_assigned_at = 29000, pd_assigned_by = DAVE\<rparr>],
       processing_records :=
         [\<lparr>pr_problem_id = 1, pr_processor = DAVE,
           pr_measure = REJECT_PREFIX @ some_text @ REJECT_SUFFIX,
           pr_department = Some HR, pr_assigned_to = Some TO_BE_ASSIGNED,
           pr_created_at = 29000\<rparr>],
       status_logs :=
         [\<lparr>sl_problem_id = 1, sl_old_status = Some STATUS_PENDING,
           sl_new_status = STATUS_PENDING, sl_operator = DAVE,
           sl_comment = REJECT_PREFIX @ some_text\<rparr>]\<rparr>"

text \<open>The rejected ticket with a later processing record that carries no marker.\<close>
definition db_rejected_then_noted :: database where
  "db_rejected_then_noted =
     db_hr_rejected\<lparr>processing_records := processing_records db_hr_rejected @
         [\<lparr>pr_problem_id = 1, pr_processor = ANN, pr_measure = some_text,
           pr_department = Some DISPATCH_CENTER, pr_assigned_to = None,
           pr_created_at = 29100\<rparr>]\<rparr>"

definition order_rejected_then_noted :: work_order where
  "order_rejected_then_noted =
     \<lparr>wo_id = 1, wo_status = STATUS_PENDING, wo_processing_unit = Some DISPATCH_CENTER,
      wo_is_processing = False, wo_is_resolved = False, wo_processing_records_count = 2\<rparr>"

text \<open>Ticket 1 of HR handed to Sales by \<^verbatim>\<open>update_problem_processor\<close> (its associations
  stay with HR) and then set to the replied status.\<close>
definition db_hr_replied_by_sales :: database where
  "db_hr_replied_by_sales =
     db_hr_assigned\<lparr>problems :=
         [1 \<mapsto> ticket_for_hr\<lparr>p_status := STATUS_REPLIED, p_processing_unit := Some SALES,
                 p_processing_person := Some BOB\<rparr>],
       status_logs :=
         [\<lparr>sl_problem_id = 1, sl_old_status = Some STATUS_REPLIED,
           sl_new_status = STATUS_REPLIED, sl_operator = BOB, sl_comment = some_text\<rparr>]\<rparr>"

definition order_hr_replied_by_sales :: work_order where
  "order_hr_replied_by_sales =
     \<lparr>wo_id = 1, wo_status = STATUS_REPLIED, wo_processing_unit = Some SALES,
      wo_is_processing = False, wo_is_resolved = False, wo_processing_records_count = 0\<rparr>"

text \<open>A ticket in the processing status, without records, whose unit is one space.\<close>
definition order_blank_unit :: work_order where
  "order_blank_unit =
     \<lparr>wo_id = 1, wo_status = STATUS_PROCESSING, wo_processing_unit = Some [32],
      wo_is_processing = False, wo_is_resolved = False, wo_processing_records_count = 0\<rparr>"

text \<open>Ticket 1 as \<^verbatim>\<open>save_problem\<close> creates it for the dispatch center.\<close>
definition ticket_created :: problem where
  "ticket_created =
     \<lparr>p_title = some_text, p_author = ANN, p_department = DISPATCH_CENTER,
      p_status = STATUS_PENDING, p_processing_unit = Some DISPATCH_CENTER,
      p_processing_person = Some [], p_response_department = Some DISPATCH_CENTER,
      p_initial_processing_unit = Some DISPATCH_CENTER,
      p_initial_status = Some STATUS_PENDING, p_is_processing = False, p_is_resolved = False\<rparr>"

definition db_created :: database where
  "db_created =
     db_start\<lparr>problems := [1 \<mapsto> ticket_created], problems_seq := 1,
       problem_departments :=
         [\<lparr>pd_problem_id = 1, pd_department = DISPATCH_CENTER, pd_is_primary = True,
           pd_assigned_at = 100, pd_assigned_by = ANN\<rparr>]\<rparr>"

text \<open>Ticket 1 associated with the dispatch center (primary) and Sales, no record yet.\<close>
definition db_center_and_sales :: database where
  "db_center_and_sales =
     db_created\<lparr>problem_departments :=
         [\<lparr>pd_problem_id = 1, pd_department = DISPATCH_CENTER, pd_is_primary = True,
           pd_assigned_at = 200, pd_assigned_by = ANN\<rparr>,
          \<lparr>pd_problem_id = 1, pd_department = SALES, pd_is_primary = False,
           pd_assigned_at = 200, pd_assigned_by = ANN\<rparr>]\<rparr>"

text \<open>The dispatch center dispatches ticket 1 to Sales and Support.\<close>
definition db_dispatched :: database where
  "db_dispatched =
     db_created\<lparr>problems :=
         [1 \<mapsto> ticket_created\<lparr>p_status := STATUS_ASSIGNED, p_processing_unit := Some SALES,
                 p_processing_person := Some BOB\<rparr>],
       problem_departments :=
         [\<lparr>pd_problem_id = 1, pd_department = SALES, pd_is_primary = True,
           pd_assigned_at = 200, pd_assigned_by = ANN\<rparr>,
          \<lparr>pd_problem_id = 1, pd_department = SUPPORT, pd_is_primary = False,
           pd_assigned_at = 200, pd_assigned_by = ANN\<rparr>],
       processing_records :=
         [\<lparr>pr_problem_id = 1, pr_processor = ANN,
           pr_measure = DISPATCH_PREFIX @ SALES @ COMMA_SPACE @ SUPPORT @ PERSONS_INFIX @ BOB
                          @ COMMA_SPACE @ CAROL @ COMMENTS_INFIX @ some_text,
           pr_department = Some DISPATCH_CENTER, pr_assigned_to = Some BOB,
           pr_created_at = 29000\<rparr>],
       status_logs :=
         [\<lparr>sl_problem_id = 1, sl_old_status = Some STATUS_ASSIGNED,
           sl_new_status = STATUS_ASSIGNED, sl_operator = ANN,
           sl_comment = DISPATCH_LOG_PREFIX @ some_text\<rparr>]\<rparr>"

text \<open>Sales accepts.\<close>
definition db_sales_accepted :: database where
  "db_sales_accepted =
     db_dispatched\<lparr>problems :=
         [1 \<mapsto> ticket_created\<lparr>p_status := STATUS_PROCESSING, p_processing_unit := Some SALES,
                 p_processing_person := Some BOB, p_is_processing := True\<rparr>],
       processing_records := processing_records db_dispatched @
         [\<lparr>pr_problem_id = 1, pr_processor = BOB, pr_measure = ACCEPT_PREFIX @ some_text,
           pr_department = Some SALES, pr_assigned_to = None, pr_created_at = 29100\<rparr>],
       status_logs := status_logs db_dispatched @
         [\<lparr>sl_problem_id = 1, sl_old_status = Some STATUS_PROCESSING,
           sl_new_status = STATUS_PROCESSING, sl_operator = BOB,
           sl_comment = ACCEPT_LOG_PREFIX @ some_text\<rparr>]\<rparr>"

text \<open>Sales replies.\<close>
definition db_sales_replied :: database where
  "db_sales_replied =
     db_sales_accepted\<lparr>problems :=
         [1 \<mapsto> ticket_created\<lparr>p_status := STATUS_REPLIED, p_processing_unit := Some SALES,
                 p_processing_person := Some BOB, p_is_processing := True\<rparr>],
       processing_records := processing_records db_sales_accepted @
         [\<lparr>pr_problem_id = 1, pr_processor = BOB, pr_measure = REPLY_COLLAB_PREFIX @ some_text,
           pr_department = Some SALES, pr_assigned_to = Some BOB, pr_created_at = 29200\<rparr>],
       status_logs := status_logs db_sales_accepted @
         [\<lparr>sl_problem_id = 1, sl_old_status = Some STATUS_REPLIED,
           sl_new_status = STATUS_REPLIED, sl_operator = BOB,
           sl_comment = REPLY_LOG_PREFIX @ some_text\<rparr>]\<rparr>"

text \<open>Support accepts (the page's "continue processing").\<close>
definition db_support_accepted :: database where
  "db_support_accepted =
     db_sales_replied\<lparr>problems :=
         [1 \<mapsto> ticket_created\<lparr>p_status := STATUS_PROCESSING, p_processing_unit := Some SUPPORT,
                 p_processing_person := Some CAROL, p_is_processing := True\<rparr>],
       processing_records := processing_records db_sales_replied @
         [\<lparr>pr_problem_id = 1, pr_processor = CAROL, pr_measure = ACCEPT_PREFIX @ some_text,
           pr_department = Some SUPPORT, pr_assigned_to = None, pr_created_at = 29300\<rparr>],
       status_logs := status_logs db_sales_replied @
         [\<lparr>sl_problem_id = 1, sl_old_status = Some STATUS_PROCESSING,
           sl_new_status = STATUS_PROCESSING, sl_operator = CAROL,
           sl_comment = ACCEPT_LOG_PREFIX @ some_text\<rparr>]\<rparr>"

text \<open>Support, the last department without a reply, replies.\<close>
definition db_support_replied :: database where
  "db_support_replied =
     db_support_accepted\<lparr>problems :=
         [1 \<mapsto> ticket_created\<lparr>p_status := STATUS_REPLIED, p_processing_unit := Some SUPPORT,
                 p_processing_person := Some CAROL, p_is_processing := True\<rparr>],
       processing_records := processing_records db_support_accepted @
         [\<lparr>pr_problem_id = 1, pr_processor = CAROL,
           pr_measure = REPLY_COLLAB_PREFIX @ some_text,
           pr_department = Some SUPPORT, pr_assigned_to = Some CAROL, pr_created_at = 29400\<rparr>],
       status_logs := status_logs db_support_accepted @
         [\<lparr>sl_problem_id = 1, sl_old_status = Some STATUS_REPLIED,
           sl_new_status = STATUS_REPLIED, sl_operator = CAROL,
           sl_comment = REPLY_LOG_PREFIX @ some_text\<rparr>]\<rparr>"

definition order_support_replied :: work_order where
  "order_support_replied =
     \<lparr>wo_id = 1, wo_status = STATUS_REPLIED, wo_processing_unit = Some SUPPORT,
      wo_is_processing = True, wo_is_resolved = False, wo_processing_records_count = 5\<rparr>"

text \<open>The store raises in the second transaction of an operation, and in no other.\<close>
definition second_fails :: "nat \<Rightarrow> bool" where
  "second_fails k = (k = 1)"

section \<open>Properties\<close>

subsection \<open>Unfolding and evaluation\<close>

lemmas const_defs = DISPATCH_CENTER_def STATUS_PENDING_def STATUS_ASSIGNED_def
  STATUS_PROCESSING_def STATUS_REPLIED_def STATUS_RESOLVED_def STATUS_REPLIED_COLLAB_COMPLETE_def
  STATUS_REPLIED_COLLAB_PENDING_def STATUS_PROCESSING_COLLAB_def STATUS_ASSIGNED_COLLAB_def
  UNDETERMINED_def MARK_REJECT_def MARK_ORDER_REJECTED_def MARK_REPLY_def MARK_COLLABORATE_def
  TO_BE_ASSIGNED_def UNKNOWN_DEPARTMENT_def REJECT_PREFIX_def REJECT_SUFFIX_def
  REPLY_LOG_PREFIX_def REPLY_FLOW_PREFIX_def FW_COLON_def REPLY_COLLAB_PREFIX_def
  DISPATCH_LOG_PREFIX_def DISPATCH_PREFIX_def PERSONS_INFIX_def COMMENTS_INFIX_def
  COMMA_SPACE_def ACCEPT_LOG_PREFIX_def ACCEPT_PREFIX_def
  SALES_def SUPPORT_def HR_def ANN_def BOB_def CAROL_def DAVE_def some_text_def

lemmas op_defs = save_problem_def update_problem_status_def update_problem_def select_status_def
  names_department_def add_processing_record_def assign_to_multiple_departments_def
  delete_departments_def replace_departments_def update_problem_processor_def
  dispatch_from_center_def accept_work_order_def process_reply_work_order_def
  reject_work_order_def lookup_user_department_def beijing_time_def get_problem_by_id_def
  get_problem_departments_def department_order_def
  check_all_collaborative_departments_processed_def collaborative_departments_def
  count_reply_records_def no_failure_def bob_sales_def carol_support_def dave_hr_def Let_def

lemmas view_defs = display_status_def select_work_order_def is_collaboration_work_order_def
  is_rejected_to_dispatch_def is_rejected_work_order_def get_processing_records_def
  unit_given_def strip_def py_isspace_def has_reply_record_def department_associations_def
  non_dispatch_departments_def

lemmas data_defs = db_start_def ticket_for_hr_def db_hr_assigned_def db_hr_rejected_def
  db_rejected_then_noted_def order_rejected_then_noted_def db_hr_replied_by_sales_def
  order_hr_replied_by_sales_def order_blank_unit_def ticket_created_def db_created_def
  db_center_and_sales_def db_dispatched_def db_sales_accepted_def db_sales_replied_def
  db_support_accepted_def db_support_replied_def order_support_replied_def second_fails_def

subsection \<open>Substrings\<close>

lemma str_in_iff_sublist: "str_in needle hay \<longleftrightarrow> sublist needle hay"
  by (induction hay) (simp_all add: sublist_Cons_right)

lemma str_in_appendI: "str_in needle (ps @ needle @ ss)"
  by (simp add: str_in_iff_sublist)

lemma reject_in_order_rejected: "str_in MARK_REJECT MARK_ORDER_REJECTED"
  by (simp add: MARK_REJECT_def MARK_ORDER_REJECTED_def)

lemma order_rejected_is_reject:
  "str_in MARK_ORDER_REJECTED m \<Longrightarrow> str_in MARK_REJECT m"
  using reject_in_order_rejected unfolding str_in_iff_sublist
  by (rule sublist_order.order.trans)


subsection \<open>Loops and queries\<close>

lemma any_rejection_record_iff:
  "any_rejection_record rs \<longleftrightarrow> (\<exists>r \<in> set rs. str_in MARK_REJECT (pr_measure r))"
  by (induction rs) (auto dest: order_rejected_is_reject)

lemma count_reply_records_0:
  "count_reply_records db pid d = 0 \<longleftrightarrow> \<not> has_reply_record db pid d"
  by (auto simp: count_reply_records_def has_reply_record_def list_ex_iff filter_empty_conv)

lemma each_department_replied_iff:
  "each_department_replied db pid ds \<longleftrightarrow> (\<forall>d \<in> set ds. has_reply_record db pid d)"
  by (induction ds) (simp_all add: count_reply_records_0)

lemma collaborative_departments_set:
  "set (collaborative_departments db pid) = set (non_dispatch_departments db pid)"
  by (auto simp: collaborative_departments_def non_dispatch_departments_def
      department_associations_def)

lemma collaborative_departments_length:
  "length (collaborative_departments db pid) = length (non_dispatch_departments db pid)"
  by (simp add: collaborative_departments_def non_dispatch_departments_def
      department_associations_def filter_map comp_def conj_commute)

lemma completeness_check_iff:
  "check_all_collaborative_departments_processed db pid =
     (if length (non_dispatch_departments db pid) \<le> 1 then True
      else (\<forall>d \<in> set (non_dispatch_departments db pid). has_reply_record db pid d))"
  by (simp add: check_all_collaborative_departments_processed_def Let_def
      each_department_replied_iff collaborative_departments_set collaborative_departments_length)

lemma length_get_problem_departments:
  "length (get_problem_departments db pid) = length (department_associations db pid)"
  by (simp add: get_problem_departments_def department_associations_def)

lemma length_non_dispatch_le:
  "length (non_dispatch_departments db pid) \<le> length (department_associations db pid)"
  unfolding non_dispatch_departments_def
  by (rule order_trans [OF length_filter_le]) simp

text \<open>The status update changes neither associations nor records, so the completeness
  check gives the same answer after it.\<close>
lemma status_update_keeps_check:
  "check_all_collaborative_departments_processed
     (snd (update_problem_status False db pid s operator c)) pid' =
   check_all_collaborative_departments_processed db pid'"
  by (cases "problems db pid")
    (simp_all add: completeness_check_iff update_problem_status_def update_problem_def Let_def
      non_dispatch_departments_def department_associations_def has_reply_record_def)

lemma filter_delete_departments:
  "filter (\<lambda>a. pd_problem_id a = pid) (delete_departments pid rows) = []"
  by (simp add: delete_departments_def filter_empty_conv)

lemma no_collaborative_rows_after_replace:
  "collaborative_departments (replace_departments db pid DISPATCH_CENTER t operator) pid = []"
  by (simp add: collaborative_departments_def replace_departments_def delete_departments_def
      filter_empty_conv)

lemma insert_departments_append:
  "insert_departments now pid operator i depts rows =
     rows @ insert_departments now pid operator i depts []"
proof (induction depts arbitrary: i rows)
  case Nil
  show ?case by simp
next
  case (Cons d ds)
  show ?case
    using Cons.IH [of "Suc i" "rows @ [_]"] Cons.IH [of "Suc i" "[_]"]
    by simp
qed

lemma insert_departments_later:
  "0 < i \<Longrightarrow> insert_departments now pid operator i depts [] =
     map (\<lambda>d. \<lparr>pd_problem_id = pid, pd_department = d, pd_is_primary = False,
                 pd_assigned_at = now, pd_assigned_by = operator\<rparr>) depts"
proof (induction depts arbitrary: i)
  case Nil
  show ?case by simp
next
  case (Cons d ds)
  then show ?case
    using insert_departments_append [of now pid operator "Suc i" ds "[_]"]
    by simp
qed

text \<open>Assignment and query for a list of any length: the departments come back in the order
  given, the first one primary.\<close>
lemma assign_then_get_any_list:
  "map (\<lambda>a. (pd_department a, pd_is_primary a))
     (get_problem_departments
        (snd (assign_to_multiple_departments False now db pid depts operator)) pid)
   = (case depts of [] \<Rightarrow> [] | d # ds \<Rightarrow> (d, True) # map (\<lambda>d. (d, False)) ds)"
proof (cases depts)
  case Nil
  then show ?thesis
    by (simp add: assign_to_multiple_departments_def get_problem_departments_def
        filter_delete_departments)
next
  case (Cons d ds)
  let ?later = "map (\<lambda>d. \<lparr>pd_problem_id = pid, pd_department = d, pd_is_primary = False,
                 pd_assigned_at = now, pd_assigned_by = operator\<rparr>) ds"
  let ?first = "\<lparr>pd_problem_id = pid, pd_department = d, pd_is_primary = True,
                 pd_assigned_at = now, pd_assigned_by = operator\<rparr>"
  have rows: "insert_departments now pid operator 0 depts
                (delete_departments pid (problem_departments db))
              = delete_departments pid (problem_departments db) @ ?first # ?later"
    using insert_departments_append
            [of now pid operator 0 depts "delete_departments pid (problem_departments db)"]
      insert_departments_append [of now pid operator "Suc 0" ds "[?first]"]
      insert_departments_later [of "Suc 0" now pid operator ds]
    by (simp add: Cons)
  have stored: "problem_departments
        (snd (assign_to_multiple_departments False now db pid depts operator))
      = delete_departments pid (problem_departments db) @ ?first # ?later"
    by (simp only: assign_to_multiple_departments_def rows if_False snd_conv) simp
  have "sorted (map department_order (?first # ?later))"
    by (induction ds) (simp_all add: department_order_def)
  then have "sort_key department_order (?first # ?later) = ?first # ?later"
    by (rule sort_key_id_if_sorted)
  moreover have "filter (\<lambda>a. pd_problem_id a = pid) ?later = ?later"
    by (induction ds) simp_all
  ultimately show ?thesis
    using stored
    by (simp add: get_problem_departments_def filter_delete_departments Cons comp_def
        del: sort_key_simps)
qed

text \<open>The status of the statistics is the displayed status, for a ticket that is not
  collaborative and is not both rejected to the dispatch center and flagged as
  processing.\<close>
lemma statistics_status_agrees:
  assumes "\<not> is_collaboration_work_order db (wo_id t)"
    and "\<not> (is_rejected_to_dispatch db t \<and> wo_is_processing t)"
  shows "calculate_status_for_statistics t = display_status db t"
proof (cases "is_rejected_to_dispatch db t")
  case True
  then have "wo_status t = STATUS_PENDING"
    by (simp add: is_rejected_to_dispatch_def split: if_splits)
  moreover have "STATUS_PENDING \<noteq> STATUS_REPLIED" "STATUS_PENDING \<noteq> STATUS_ASSIGNED"
    by (simp_all add: const_defs)
  ultimately show ?thesis
    using assms True
    by (simp add: calculate_status_for_statistics_def display_status_def Let_def)
next
  case False
  then show ?thesis
    using assms
    by (simp add: calculate_status_for_statistics_def display_status_def Let_def)
qed

text \<open>The measure text of a collaborative reply carries the processed-reply marker.\<close>
lemma reply_collab_prefix_has_marker: "str_in MARK_REPLY (REPLY_COLLAB_PREFIX @ content)"
proof -
  have "REPLY_COLLAB_PREFIX =
      [] @ MARK_REPLY @ [65288, 21327, 21516, 22788, 29702, 20013, 65289, 65306]"
    by (simp add: REPLY_COLLAB_PREFIX_def MARK_REPLY_def)
  then have "REPLY_COLLAB_PREFIX @ content =
      [] @ MARK_REPLY @ ([65288, 21327, 21516, 22788, 29702, 20013, 65289, 65306] @ content)"
    by simp
  then show ?thesis
    by (simp only: str_in_appendI)
qed

lemma is_collaboration_iff_non_dispatch:
  "is_collaboration_work_order db pid \<longleftrightarrow> 1 < length (non_dispatch_departments db pid)"
  by (simp add: is_collaboration_work_order_def non_dispatch_departments_def
      department_associations_def filter_map comp_def conj_commute)

text \<open>The completeness check of a reply runs before the record of the reply is written.
  While one of several departments has no processed-reply record, a reply therefore
  takes the branch that keeps the ticket where it is: it changes the raw status, logs
  the change and appends the record of the reply, and nothing else.\<close>
lemma reply_in_progress_result:
  assumes "problems db pid = Some t"
    and "1 < length (non_dispatch_departments db pid)"
    and "d \<in> set (non_dispatch_departments db pid)"
    and "\<not> has_reply_record db pid d"
    and "\<not> raises 0" and "\<not> raises 1" and "\<not> raises 2"
  shows "process_reply_work_order raises now session db pid processor content =
     (Some True,
      db\<lparr>problems := (problems db)(pid \<mapsto> t\<lparr>p_status := STATUS_REPLIED\<rparr>),
         status_logs := status_logs db @
           [\<lparr>sl_problem_id = pid, sl_old_status = Some STATUS_REPLIED,
             sl_new_status = STATUS_REPLIED, sl_operator = processor,
             sl_comment = REPLY_LOG_PREFIX @ content\<rparr>],
         processing_records := processing_records db @
           [\<lparr>pr_problem_id = pid, pr_processor = processor,
             pr_measure = REPLY_COLLAB_PREFIX @ content,
             pr_department = ui_department session,
             pr_assigned_to = p_processing_person t,
             pr_created_at = beijing_time now\<rparr>]\<rparr>)"
proof -
  have collab: "1 < length (get_problem_departments db pid)"
    using assms(2) length_non_dispatch_le [of db pid]
    by (simp add: length_get_problem_departments)
  have "\<not> check_all_collaborative_departments_processed db pid"
    using assms(2-4) by (auto simp: completeness_check_iff)
  then have still_open: "\<not> check_all_collaborative_departments_processed
      (snd (update_problem_status False db pid STATUS_REPLIED processor
              (REPLY_LOG_PREFIX @ content))) pid"
    by (simp add: status_update_keeps_check)
  show ?thesis
    using assms(1,5-7) collab still_open
    by (simp add: process_reply_work_order_def get_problem_by_id_def Let_def split_beta
        add_processing_record_def)
      (simp add: update_problem_status_def update_problem_def select_status_def Let_def)
qed

subsection \<open>The example stores are reachable\<close>

text \<open>Each example store is what the operations produce, step by step, from the store
  without tickets.\<close>

lemma step_hr_assigned:
  "save_problem False 100 db_start some_text ANN DISPATCH_CENTER HR = (Some 1, db_hr_assigned)"
  by (simp add: op_defs data_defs const_defs)

lemma step_hr_rejected:
  "reject_work_order no_failure 200 dave_hr db_hr_assigned 1 DAVE some_text
     = (Some True, db_hr_rejected)"
  by (simp add: op_defs data_defs const_defs)

lemma step_rejected_then_noted:
  "add_processing_record False 300 db_hr_rejected 1 ANN some_text (Some DISPATCH_CENTER) None
     = (True, db_rejected_then_noted)"
  by (simp add: op_defs data_defs)

lemma step_hr_replied_by_sales:
  "update_problem_status False
     (snd (update_problem_processor False db_hr_assigned 1 BOB (Some SALES))) 1
     STATUS_REPLIED BOB some_text
   = (True, db_hr_replied_by_sales)"
  by (simp add: op_defs data_defs const_defs)

lemma step_created:
  "save_problem False 100 db_start some_text ANN DISPATCH_CENTER DISPATCH_CENTER
     = (Some 1, db_created)"
  by (simp add: op_defs data_defs const_defs)

lemma step_center_and_sales:
  "assign_to_multiple_departments False 200 db_created 1 [DISPATCH_CENTER, SALES] ANN
     = (True, db_center_and_sales)"
  by (simp add: op_defs data_defs const_defs)

lemma step_dispatched:
  "dispatch_from_center no_failure 200 db_created 1 [SALES, SUPPORT] [BOB, CAROL] ANN some_text
     = (True, db_dispatched)"
  by (simp add: op_defs data_defs const_defs)

lemma step_sales_accepted:
  "accept_work_order no_failure 300 bob_sales db_dispatched 1 BOB some_text
     = (Some True, db_sales_accepted)"
  by (simp add: op_defs data_defs const_defs)

lemma step_sales_replied:
  "process_reply_work_order no_failure 400 bob_sales db_sales_accepted 1 BOB some_text
     = (Some True, db_sales_replied)"
  by (simp add: op_defs data_defs const_defs)

lemma step_support_accepted:
  "accept_work_order no_failure 500 carol_support db_sales_replied 1 CAROL some_text
     = (Some True, db_support_accepted)"
  by (simp add: op_defs data_defs const_defs)

lemma step_support_replied:
  "process_reply_work_order no_failure 600 carol_support db_support_accepted 1 CAROL some_text
     = (Some True, db_support_replied)"
  by (simp add: op_defs data_defs const_defs)

lemma order_of_support_replied:
  "select_work_order db_support_replied 1 = Some order_support_replied"
  by (simp add: select_work_order_def data_defs)

lemma departments_of_center_and_sales:
  "non_dispatch_departments db_center_and_sales 1 = [SALES]"
  by (simp add: non_dispatch_departments_def department_associations_def data_defs const_defs)

lemma departments_of_support_accepted:
  "non_dispatch_departments db_support_accepted 1 = [SALES, SUPPORT]"
  by (simp add: non_dispatch_departments_def department_associations_def data_defs const_defs)

lemma departments_of_support_replied:
  "non_dispatch_departments db_support_replied 1 = [SALES, SUPPORT]"
  by (simp add: non_dispatch_departments_def department_associations_def data_defs const_defs)

lemma replies_of_support_accepted:
  "has_reply_record db_support_accepted 1 SALES"
  "\<not> has_reply_record db_support_accepted 1 SUPPORT"
  by (simp_all add: has_reply_record_def data_defs const_defs)

lemma replies_of_support_replied:
  "has_reply_record db_support_replied 1 SALES"
  "has_reply_record db_support_replied 1 SUPPORT"
  by (simp_all add: has_reply_record_def data_defs const_defs)

subsection \<open>C1: the precedence of the displayed status\<close>




subsection \<open>C2: the reply of the last collaborating department\<close>

text \<open>
  C2, as amended. For a ticket that is not resolved and has more than one associated
  department other than the dispatch center (Sales and Support, say), where every such
  department but one has a processed-reply record, the reply of that last department,
  made from a session of that department on a store that does not fail, succeeds and
  yields the displayed status replied (collaborative, complete); the department
  associations and the processing department of the ticket stay as they were.
\<close>
theorem last_reply_completes_and_keeps_associations:
  assumes "problems db pid = Some t"
    and "\<not> p_is_resolved t"
    and "1 < length (non_dispatch_departments db pid)"
    and "B \<in> set (non_dispatch_departments db pid)"
    and "\<not> has_reply_record db pid B"
    and "\<forall>d \<in> set (non_dispatch_departments db pid). d \<noteq> B \<longrightarrow> has_reply_record db pid d"
    and "ui_department session = Some B"
    and "\<not> raises 0" and "\<not> raises 1" and "\<not> raises 2"
  shows "fst (process_reply_work_order raises now session db pid processor content) = Some True
     \<and> map_option
          (display_status (snd (process_reply_work_order raises now session db pid processor content)))
          (select_work_order
             (snd (process_reply_work_order raises now session db pid processor content)) pid)
         = Some STATUS_REPLIED_COLLAB_COMPLETE
     \<and> problem_departments
           (snd (process_reply_work_order raises now session db pid processor content))
         = problem_departments db
     \<and> map_option p_processing_unit
           (problems (snd (process_reply_work_order raises now session db pid processor content)) pid)
         = Some (p_processing_unit t)"
proof -
  let ?db' = "snd (process_reply_work_order raises now session db pid processor content)"
  note result =
    reply_in_progress_result [OF assms(1,3,4,5,8,9,10), of now session processor content]
  have departments: "non_dispatch_departments ?db' pid = non_dispatch_departments db pid"
    by (simp add: result non_dispatch_departments_def department_associations_def)
  have own: "has_reply_record ?db' pid B"
    by (simp add: result has_reply_record_def assms(7) reply_collab_prefix_has_marker)
  have others: "has_reply_record db pid d \<Longrightarrow> has_reply_record ?db' pid d" for d
    by (simp add: result has_reply_record_def)
  have "\<forall>d \<in> set (non_dispatch_departments ?db' pid). has_reply_record ?db' pid d"
    using assms(6) own others by (auto simp: departments)
  then have complete: "check_all_collaborative_departments_processed ?db' pid"
    by (simp add: completeness_check_iff)
  have collaborative: "is_collaboration_work_order ?db' pid"
    using assms(3) by (simp add: is_collaboration_iff_non_dispatch departments)
  have shown: "map_option (display_status ?db') (select_work_order ?db' pid)
        = Some STATUS_REPLIED_COLLAB_COMPLETE"
    using complete collaborative assms(2)
    by (simp add: result select_work_order_def display_status_def Let_def)
  show ?thesis
    using shown by (simp add: result)
qed

text \<open>
  Ticket 1 is associated with Sales and Support, Sales has a processed-reply record and
  Support has none; Carol of Support replies.
\<close>
theorem last_reply_completes_and_keeps_associations_witness:
  "non_dispatch_departments db_support_accepted 1 = [SALES, SUPPORT]
   \<and> has_reply_record db_support_accepted 1 SALES
   \<and> \<not> has_reply_record db_support_accepted 1 SUPPORT
   \<and> fst (process_reply_work_order no_failure 600 carol_support db_support_accepted 1
             CAROL some_text) = Some True
   \<and> map_option
        (display_status (snd (process_reply_work_order no_failure 600 carol_support
           db_support_accepted 1 CAROL some_text)))
        (select_work_order (snd (process_reply_work_order no_failure 600 carol_support
           db_support_accepted 1 CAROL some_text)) 1)
       = Some STATUS_REPLIED_COLLAB_COMPLETE
   \<and> problem_departments (snd (process_reply_work_order no_failure 600 carol_support
        db_support_accepted 1 CAROL some_text))
       = problem_departments db_support_accepted
   \<and> map_option p_processing_unit
        (problems (snd (process_reply_work_order no_failure 600 carol_support
           db_support_accepted 1 CAROL some_text)) 1)
       = Some (Some SUPPORT)"
proof -
  obtain t where a: "problems db_support_accepted 1 = Some t"
    and b: "\<not> p_is_resolved t" and unit: "p_processing_unit t = Some SUPPORT"
    by (simp add: data_defs)
  have c: "1 < length (non_dispatch_departments db_support_accepted 1)"
    and d: "SUPPORT \<in> set (non_dispatch_departments db_support_accepted 1)"
    by (simp_all add: departments_of_support_accepted del: One_nat_def)
  have e: "\<not> has_reply_record db_support_accepted 1 SUPPORT"
    by (rule replies_of_support_accepted)
  have f: "\<forall>d \<in> set (non_dispatch_departments db_support_accepted 1).
      d \<noteq> SUPPORT \<longrightarrow> has_reply_record db_support_accepted 1 d"
    by (simp add: departments_of_support_accepted replies_of_support_accepted
        del: One_nat_def)
  have g: "ui_department carol_support = Some SUPPORT"
    by (simp add: carol_support_def)
  have h: "\<not> no_failure 0" "\<not> no_failure 1" "\<not> no_failure 2"
    by (simp_all add: no_failure_def)
  show ?thesis
    using last_reply_completes_and_keeps_associations
            [OF a b c d e f g h, of 600 CAROL some_text]
      departments_of_support_accepted replies_of_support_accepted unit
    by (simp del: One_nat_def)
qed

text \<open>
  C2 as stated fails on the same reply: it succeeds and the displayed status is the
  collaborative, complete one, but the ticket is still associated with Sales and Support,
  not with the dispatch center alone, and its processing department is still Support.
\<close>
theorem last_reply_no_collapse_counterexample:
  "non_dispatch_departments db_support_accepted 1 = [SALES, SUPPORT]
   \<and> has_reply_record db_support_accepted 1 SALES
   \<and> \<not> has_reply_record db_support_accepted 1 SUPPORT
   \<and> process_reply_work_order no_failure 600 carol_support db_support_accepted 1 CAROL some_text
       = (Some True, db_support_replied)
   \<and> select_work_order db_support_replied 1 = Some order_support_replied
   \<and> display_status db_support_replied order_support_replied = STATUS_REPLIED_COLLAB_COMPLETE
   \<and> map pd_department (get_problem_departments db_support_replied 1) = [SALES, SUPPORT]
   \<and> map pd_department (get_problem_departments db_support_replied 1) \<noteq> [DISPATCH_CENTER]
   \<and> map_option p_processing_unit (problems db_support_replied 1) = Some (Some SUPPORT)"
proof -
  have departments:
    "map pd_department (get_problem_departments db_support_replied 1) = [SALES, SUPPORT]"
    by (simp add: get_problem_departments_def department_order_def data_defs)
  have shown: "display_status db_support_replied order_support_replied
      = STATUS_REPLIED_COLLAB_COMPLETE"
    by (simp add: op_defs view_defs data_defs const_defs)
  have unit: "map_option p_processing_unit (problems db_support_replied 1) = Some (Some SUPPORT)"
    by (simp add: data_defs)
  show ?thesis
    using replies_of_support_accepted step_support_replied order_of_support_replied
      departments_of_support_accepted departments shown unit
    by simp
qed

subsection \<open>C3: the completeness check\<close>

text \<open>
  C3, as amended. The completeness check of a ticket returns true whenever the ticket has
  at most one associated department other than the dispatch center; otherwise it returns
  true if and only if every associated department other than the dispatch center has a
  processing record of its own whose measure contains the processed-reply marker.
\<close>
theorem all_departments_processed_iff:
  "check_all_collaborative_departments_processed db pid =
     (if length (non_dispatch_departments db pid) \<le> 1 then True
      else (\<forall>d \<in> set (non_dispatch_departments db pid). has_reply_record db pid d))"
  by (rule completeness_check_iff)

text \<open>The check on a ticket of the dispatch center and Sales (one other department), on
  the ticket of Sales and Support before Support's reply, and after it.\<close>
theorem all_departments_processed_iff_witness:
  "length (non_dispatch_departments db_center_and_sales 1) \<le> 1
   \<and> check_all_collaborative_departments_processed db_center_and_sales 1
   \<and> \<not> check_all_collaborative_departments_processed db_support_accepted 1
   \<and> check_all_collaborative_departments_processed db_support_replied 1"
  by (simp add: all_departments_processed_iff departments_of_center_and_sales
      departments_of_support_accepted departments_of_support_replied
      replies_of_support_accepted replies_of_support_replied del: One_nat_def)

text \<open>C3 as stated counts all associations. The ticket associated with the dispatch center
  and Sales has two associations, and Sales, its only other department, has no reply
  record: the check should be false, and it is true.\<close>
theorem all_departments_processed_counterexample:
  "length (department_associations db_center_and_sales 1) = 2
   \<and> List.member (non_dispatch_departments db_center_and_sales 1) SALES
   \<and> \<not> has_reply_record db_center_and_sales 1 SALES
   \<and> check_all_collaborative_departments_processed db_center_and_sales 1"
proof -
  have "length (department_associations db_center_and_sales 1) = 2"
    by (simp add: department_associations_def data_defs)
  moreover have "\<not> has_reply_record db_center_and_sales 1 SALES"
    by (simp add: has_reply_record_def data_defs)
  moreover have "check_all_collaborative_departments_processed db_center_and_sales 1"
    by (simp add: check_all_collaborative_departments_processed_def collaborative_departments_def
        data_defs const_defs)
  ultimately show ?thesis
    by (simp add: departments_of_center_and_sales del: One_nat_def)
qed

subsection \<open>C4: the rejected-to-dispatch-center condition\<close>

text \<open>
  C4, as amended. For every ticket with the pending status, the dispatch center as its
  processing department and a record count above zero, the rejected-to-dispatch-center
  condition holds exactly when some processing record of the ticket, the latest or an
  earlier one, has a measure that contains the rejection marker.
\<close>
theorem rejected_to_dispatch_iff_any_record:
  assumes "wo_status t = STATUS_PENDING"
    and "wo_processing_unit t = Some DISPATCH_CENTER"
    and "0 < wo_processing_records_count t"
  shows "is_rejected_to_dispatch db t \<longleftrightarrow>
     (\<exists>r \<in> set (get_processing_records db (wo_id t)). str_in MARK_REJECT (pr_measure r))"
  using assms
  by (auto simp: is_rejected_to_dispatch_def is_rejected_work_order_def Let_def
      any_rejection_record_iff)

text \<open>The rejected ticket with a later note: its first record carries the marker, so the
  condition holds.\<close>
theorem rejected_to_dispatch_iff_any_record_witness:
  "wo_status order_rejected_then_noted = STATUS_PENDING
   \<and> wo_processing_unit order_rejected_then_noted = Some DISPATCH_CENTER
   \<and> 0 < wo_processing_records_count order_rejected_then_noted
   \<and> str_in MARK_REJECT (pr_measure (hd (get_processing_records db_rejected_then_noted 1)))
   \<and> is_rejected_to_dispatch db_rejected_then_noted order_rejected_then_noted"
proof -
  have a: "wo_status order_rejected_then_noted = STATUS_PENDING"
    and b: "wo_processing_unit order_rejected_then_noted = Some DISPATCH_CENTER"
    and c: "0 < wo_processing_records_count order_rejected_then_noted"
    and e: "wo_id order_rejected_then_noted = 1"
    by (simp_all add: data_defs)
  have d: "str_in MARK_REJECT (pr_measure (hd (get_processing_records db_rejected_then_noted 1)))"
    by (simp add: get_processing_records_def data_defs const_defs)
  have "hd (get_processing_records db_rejected_then_noted 1)
          \<in> set (get_processing_records db_rejected_then_noted 1)"
    by (simp add: get_processing_records_def data_defs)
  with d have "\<exists>r \<in> set (get_processing_records db_rejected_then_noted 1).
      str_in MARK_REJECT (pr_measure r)"
    by blast
  with rejected_to_dispatch_iff_any_record [OF a b c, of db_rejected_then_noted] e
  have "is_rejected_to_dispatch db_rejected_then_noted order_rejected_then_noted"
    by simp
  with a b c d show ?thesis by simp
qed

text \<open>C4 as stated lets the most recent record decide. On the same ticket the most recent
  record carries no marker, and the condition holds all the same.\<close>
theorem rejected_to_dispatch_latest_record_counterexample:
  "select_work_order db_rejected_then_noted 1 = Some order_rejected_then_noted
   \<and> wo_status order_rejected_then_noted = STATUS_PENDING
   \<and> wo_processing_unit order_rejected_then_noted = Some DISPATCH_CENTER
   \<and> 0 < wo_processing_records_count order_rejected_then_noted
   \<and> \<not> str_in MARK_REJECT (pr_measure (last (get_processing_records db_rejected_then_noted 1)))
   \<and> is_rejected_to_dispatch db_rejected_then_noted order_rejected_then_noted"
proof -
  have "select_work_order db_rejected_then_noted 1 = Some order_rejected_then_noted"
    by (simp add: select_work_order_def data_defs)
  moreover have "wo_status order_rejected_then_noted = STATUS_PENDING"
    and "wo_processing_unit order_rejected_then_noted = Some DISPATCH_CENTER"
    and "0 < wo_processing_records_count order_rejected_then_noted"
    by (simp_all add: data_defs)
  moreover have
    "\<not> str_in MARK_REJECT (pr_measure (last (get_processing_records db_rejected_then_noted 1)))"
    by (simp add: get_processing_records_def data_defs const_defs)
  moreover have "is_rejected_to_dispatch db_rejected_then_noted order_rejected_then_noted"
    by (simp add: is_rejected_to_dispatch_def is_rejected_work_order_def
        get_processing_records_def data_defs const_defs)
  ultimately show ?thesis by simp
qed

subsection \<open>C5: transactions of an operation\<close>




subsection \<open>C6: the status log\<close>

text \<open>
  C6, on the program. A successful status update of an existing ticket appends exactly one
  log entry, whose new value is the status being set, and whose old value is that same
  status: the subquery for the old value runs after the UPDATE.
\<close>
theorem update_problem_status_logs_new_status_as_old:
  assumes "problems db pid = Some t"
  shows "status_logs (snd (update_problem_status False db pid new_status operator comment)) =
           status_logs db @
             [\<lparr>sl_problem_id = pid, sl_old_status = Some new_status, sl_new_status = new_status,
               sl_operator = operator, sl_comment = comment\<rparr>]"
  using assms
  by (simp add: update_problem_status_def update_problem_def select_status_def Let_def)

text \<open>Ticket 1 is assigned; setting it to processing logs processing as the old value.\<close>
theorem update_problem_status_logs_new_status_as_old_witness:
  "select_status db_hr_assigned 1 = Some STATUS_ASSIGNED
   \<and> STATUS_ASSIGNED \<noteq> STATUS_PROCESSING
   \<and> map sl_old_status
         (status_logs (snd (update_problem_status False db_hr_assigned 1 STATUS_PROCESSING DAVE
                              some_text)))
       = [Some STATUS_PROCESSING]"
proof -
  have a: "problems db_hr_assigned 1 = Some ticket_for_hr"
    by (simp add: data_defs)
  have "select_status db_hr_assigned 1 = Some STATUS_ASSIGNED"
    by (simp add: select_status_def data_defs)
  moreover have "STATUS_ASSIGNED \<noteq> STATUS_PROCESSING"
    by (simp add: const_defs)
  moreover have "status_logs db_hr_assigned = []"
    by (simp add: data_defs)
  ultimately show ?thesis
    using update_problem_status_logs_new_status_as_old [OF a, of STATUS_PROCESSING DAVE some_text]
    by simp
qed

subsection \<open>C7: assignment and query of the departments\<close>

text \<open>
  C7. For every ticket id and departments A, B, C, assigning [A, B, C] and then querying
  the associations of the ticket returns three associations, for A, B and C in that order,
  of which the first and only the first is primary.
\<close>
theorem assign_then_get_departments:
  "map (\<lambda>a. (pd_department a, pd_is_primary a))
     (get_problem_departments
        (snd (assign_to_multiple_departments False now db pid [A, B, C] operator)) pid)
   = [(A, True), (B, False), (C, False)]"
  by (simp add: assign_to_multiple_departments_def get_problem_departments_def
      filter_delete_departments department_order_def)

text \<open>Ticket 1, which was associated with the dispatch center, assigned to Sales, Support
  and HR.\<close>
theorem assign_then_get_departments_witness:
  "map (\<lambda>a. (pd_department a, pd_is_primary a))
     (get_problem_departments
        (snd (assign_to_multiple_departments False 200 db_created 1 [SALES, SUPPORT, HR] ANN)) 1)
   = [(SALES, True), (SUPPORT, False), (HR, False)]"
  by (rule assign_then_get_departments)

subsection \<open>C8: rejecting an assigned ticket\<close>



subsection \<open>C9: replied tickets of another department\<close>

text \<open>
  C9. For every actor whose department is not the dispatch center, whatever the role: if
  the displayed status of a ticket is exactly the replied status and the ticket's
  processing department is not the actor's department, the actor may not operate on the
  ticket, whether or not the actor's department is associated with the ticket or has a
  collaboration record.
\<close>
theorem replied_ticket_of_other_unit_denied:
  assumes "ui_department u \<noteq> Some DISPATCH_CENTER"
    and "display_status db t = STATUS_REPLIED"
    and "wo_processing_unit t \<noteq> ui_department u"
  shows "\<not> can_operate db t u"
  using assms by (simp add: can_operate_def Let_def)

text \<open>Ticket 1 is associated with HR, handled by Sales and replied: Dave of HR is denied,
  though his department is associated with the ticket.\<close>
theorem replied_ticket_of_other_unit_denied_witness:
  "select_work_order db_hr_replied_by_sales 1 = Some order_hr_replied_by_sales
   \<and> ui_department dave_hr \<noteq> Some DISPATCH_CENTER
   \<and> display_status db_hr_replied_by_sales order_hr_replied_by_sales = STATUS_REPLIED
   \<and> wo_processing_unit order_hr_replied_by_sales \<noteq> ui_department dave_hr
   \<and> is_department_assigned_to_problem db_hr_replied_by_sales 1 (ui_department dave_hr)
   \<and> \<not> can_operate db_hr_replied_by_sales order_hr_replied_by_sales dave_hr"
proof -
  have a: "ui_department dave_hr \<noteq> Some DISPATCH_CENTER"
    by (simp add: dave_hr_def const_defs)
  have b: "display_status db_hr_replied_by_sales order_hr_replied_by_sales = STATUS_REPLIED"
    by (simp add: display_status_def is_collaboration_work_order_def data_defs const_defs)
  have c: "wo_processing_unit order_hr_replied_by_sales \<noteq> ui_department dave_hr"
    by (simp add: dave_hr_def data_defs const_defs)
  have "select_work_order db_hr_replied_by_sales 1 = Some order_hr_replied_by_sales"
    by (simp add: select_work_order_def data_defs)
  moreover have
    "is_department_assigned_to_problem db_hr_replied_by_sales 1 (ui_department dave_hr)"
    by (simp add: is_department_assigned_to_problem_def dave_hr_def data_defs)
  ultimately show ?thesis
    using a b c replied_ticket_of_other_unit_denied [OF a b c] by simp
qed

subsection \<open>C10: the initial state of a ticket\<close>

text \<open>
  C10, as amended. A ticket created with a response department that is not empty, not
  "undetermined" and not the dispatch center starts with the assigned status, that
  department as its processing unit, and exactly one association, primary, for that
  department. A ticket created with an empty response department, "undetermined" or the
  dispatch center starts with the pending status, the dispatch center as its processing
  unit, and exactly one association, primary, for the dispatch center. (The new id has no
  association before.)
\<close>
theorem save_problem_initial_state:
  assumes "department_associations db (Suc (problems_seq db)) = []"
  shows "fst (save_problem False now db title author department rd) = Some (Suc (problems_seq db))
     \<and> (if rd \<noteq> [] \<and> rd \<noteq> UNDETERMINED \<and> rd \<noteq> DISPATCH_CENTER
         then select_status (snd (save_problem False now db title author department rd))
                (Suc (problems_seq db)) = Some STATUS_ASSIGNED
              \<and> map_option p_processing_unit
                  (problems (snd (save_problem False now db title author department rd))
                     (Suc (problems_seq db))) = Some (Some rd)
              \<and> department_associations (snd (save_problem False now db title author department rd))
                  (Suc (problems_seq db)) =
                  [\<lparr>pd_problem_id = Suc (problems_seq db), pd_department = rd,
                    pd_is_primary = True, pd_assigned_at = now, pd_assigned_by = author\<rparr>]
         else select_status (snd (save_problem False now db title author department rd))
                (Suc (problems_seq db)) = Some STATUS_PENDING
              \<and> map_option p_processing_unit
                  (problems (snd (save_problem False now db title author department rd))
                     (Suc (problems_seq db))) = Some (Some DISPATCH_CENTER)
              \<and> department_associations (snd (save_problem False now db title author department rd))
                  (Suc (problems_seq db)) =
                  [\<lparr>pd_problem_id = Suc (problems_seq db), pd_department = DISPATCH_CENTER,
                    pd_is_primary = True, pd_assigned_at = now, pd_assigned_by = author\<rparr>])"
  using assms
  by (auto simp: save_problem_def names_department_def update_problem_def select_status_def
      department_associations_def Let_def)

text \<open>The first ticket of the store, created for HR, and created as undetermined.\<close>
theorem save_problem_initial_state_witness:
  "department_associations db_start (Suc (problems_seq db_start)) = []
   \<and> select_status (snd (save_problem False 100 db_start some_text ANN DISPATCH_CENTER HR)) 1
       = Some STATUS_ASSIGNED
   \<and> map pd_department
        (department_associations
           (snd (save_problem False 100 db_start some_text ANN DISPATCH_CENTER HR)) 1) = [HR]
   \<and> select_status
        (snd (save_problem False 100 db_start some_text ANN DISPATCH_CENTER UNDETERMINED)) 1
       = Some STATUS_PENDING
   \<and> map pd_department
        (department_associations
           (snd (save_problem False 100 db_start some_text ANN DISPATCH_CENTER UNDETERMINED)) 1)
       = [DISPATCH_CENTER]"
proof -
  have a: "department_associations db_start (Suc (problems_seq db_start)) = []"
    by (simp add: department_associations_def db_start_def)
  have s: "Suc (problems_seq db_start) = 1"
    by (simp add: db_start_def)
  have h: "HR \<noteq> [] \<and> HR \<noteq> UNDETERMINED \<and> HR \<noteq> DISPATCH_CENTER"
    by (simp add: const_defs)
  show ?thesis
    using save_problem_initial_state [OF a, of 100 some_text ANN DISPATCH_CENTER HR]
      save_problem_initial_state [OF a, of 100 some_text ANN DISPATCH_CENTER UNDETERMINED]
      a h
    by (simp add: s del: One_nat_def)
qed

text \<open>C10 as stated sends every response department other than "undetermined" and the
  dispatch center to the assigned status. The empty response department is neither, and
  the ticket starts pending, associated with the dispatch center.\<close>
theorem save_problem_empty_department_counterexample:
  "[] \<noteq> UNDETERMINED \<and> [] \<noteq> DISPATCH_CENTER
   \<and> select_status (snd (save_problem False 100 db_start some_text ANN DISPATCH_CENTER [])) 1
       = Some STATUS_PENDING
   \<and> map pd_department
        (department_associations
           (snd (save_problem False 100 db_start some_text ANN DISPATCH_CENTER [])) 1)
       = [DISPATCH_CENTER]"
  by (simp add: save_problem_def names_department_def update_problem_def select_status_def
      department_associations_def Let_def db_start_def const_defs)

end
